theory Spec2Isabelle
  imports Main
begin

section \<open>The template renderer of \<^verbatim>\<open>services/template_renderer.go\<close>\<close>

text \<open>
  The renderer keeps a cache of parsed page templates in a \<^verbatim>\<open>sync.Map\<close>, keyed by the
  string \<^verbatim>\<open>group:id\<close>. \<^verbatim>\<open>Parse\<close> fills the cache (always, in the local environment),
  \<^verbatim>\<open>Execute\<close> renders from it, \<^verbatim>\<open>Load\<close> reads it.

  Go strings are byte sequences and are modelled as \<^typ>\<open>string\<close>. A method with the
  pointer receiver \<^verbatim>\<open>t *TemplateRenderer\<close> that can reach a store takes the renderer and
  returns it, updated; \<^verbatim>\<open>Parse\<close> also returns the contents of the caller's \<^verbatim>\<open>files\<close>
  slice, whose backing array it writes. A value of type \<^verbatim>\<open>*template.Template\<close> is
  modelled as a value of a type \<open>'t\<close>: what the library does inside such an object is
  not part of the sources. Only \<open>Execute_store\<close> below keeps the template objects in a
  store and the pointers to them in the cache, to follow what executing does to the
  cached object. Pointers are taken to be non-nil: the renderer is the one
  \<^verbatim>\<open>NewTemplateRenderer\<close> made, from a configuration that exists.

  The parameters \<^verbatim>\<open>group\<close> and \<^verbatim>\<open>id\<close> are written \<open>grp\<close> and \<open>idn\<close>, since \<open>group\<close> and
  \<open>id\<close> are constants of HOL.
\<close>

subsection \<open>Data\<close>

text \<open>
  The Go \<^verbatim>\<open>error\<close> values the renderer returns. The first two are made by
  \<^verbatim>\<open>errors.New\<close> in \<^verbatim>\<open>Load\<close>: \<open>NotFoundError\<close> is
  \<^verbatim>\<open>"uncached page template requested"\<close> and \<open>TypeError\<close> is
  \<^verbatim>\<open>"unable to cast cached template"\<close>. The other two carry, unchanged, the error
  that \<^verbatim>\<open>ParseFiles\<close> or \<^verbatim>\<open>ParseGlob\<close> returned (\<open>ParseError\<close>) and the one that
  \<^verbatim>\<open>ExecuteTemplate\<close> returned (\<open>ExecutionError\<close>).
\<close>

datatype error =
    NotFoundError
  | TypeError
  | ParseError string
  | ExecutionError string

text \<open>
  A value of the empty interface, as \<^verbatim>\<open>sync.Map\<close> holds it: either a
  \<^verbatim>\<open>*template.Template\<close>, or a value of some other dynamic type (described by a string).
\<close>

datatype 't any =
    AnyTemplate 't
  | AnyOther string

text \<open>\<^verbatim>\<open>config.Config\<close>, as far as the renderer reads it: \<^verbatim>\<open>config.App.Environment\<close>.\<close>

record config =
  App_Environment :: string

text \<open>
  The constants of package \<^verbatim>\<open>goweb/config\<close> that the renderer uses. The package is not
  among the sources, so their values are parameters.
\<close>

record config_pkg =
  TemplateExt :: string
  EnvLocal :: string

text \<open>
  The functions of \<^verbatim>\<open>html/template\<close> that the renderer calls, as parameters. \<open>'fs\<close> is the
  file system they read, \<open>'fm\<close> a \<^verbatim>\<open>template.FuncMap\<close>, \<open>'d\<close> the data given to a template.
  An error is its message. \<open>Lookup\<close> gives the template of that name associated with a
  template, \<open>ExecuteOne\<close> applies one template to data and gives the bytes written.
\<close>

record ('t, 'fs, 'fm, 'd) template_pkg =
  New :: "string \<Rightarrow> 't"
  Funcs :: "'t \<Rightarrow> 'fm \<Rightarrow> 't"
  ParseFiles :: "'fs \<Rightarrow> 't \<Rightarrow> string list \<Rightarrow> string + 't"
  ParseGlob :: "'fs \<Rightarrow> 't \<Rightarrow> string \<Rightarrow> string + 't"
  Lookup :: "'t \<Rightarrow> string \<Rightarrow> 't option"
  ExecuteOne :: "'t \<Rightarrow> 'd \<Rightarrow> string + string"

text \<open>
  Modelled from the spec: \<^verbatim>\<open>ExecuteTemplate\<close> of \<^verbatim>\<open>html/template\<close>, which is not among the
  sources. It "invokes the named sub-template within the compiled set against arbitrary
  input data" and fails "if rendering fails ... or if the named sub-template is not
  present in the compiled set".
\<close>

definition ExecuteTemplate ::
  "('t, 'fs, 'fm, 'd) template_pkg \<Rightarrow> 't \<Rightarrow> string \<Rightarrow> 'd \<Rightarrow> string + string" where
  "ExecuteTemplate lib tmpl name data =
     (case Lookup lib tmpl name of
        None \<Rightarrow> Inl (''html/template: '' @ name @ '' is undefined'')
      | Some sub \<Rightarrow> ExecuteOne lib sub data)"

text \<open>The struct \<^verbatim>\<open>TemplateRenderer\<close>; \<open>templateCache\<close> is the \<^verbatim>\<open>sync.Map\<close>.\<close>

record ('t, 'fm) TemplateRenderer =
  templateCache :: "string \<rightharpoonup> 't any"
  funcMap :: 'fm
  templatesPath :: string
  config :: config

subsection \<open>Operations\<close>

text \<open>
  \<^verbatim>\<open>NewTemplateRenderer\<close>. The function map comes from \<^verbatim>\<open>funcmap.GetFuncMap()\<close> and the
  templates path from the location of the source file at run time
  (\<^verbatim>\<open>runtime.Caller\<close>); both are parameters here.
\<close>

definition NewTemplateRenderer :: "'fm \<Rightarrow> string \<Rightarrow> config \<Rightarrow> ('t, 'fm) TemplateRenderer" where
  "NewTemplateRenderer fm path cfg =
     \<lparr>templateCache = Map.empty, funcMap = fm, templatesPath = path, config = cfg\<rparr>"

text \<open>\<^verbatim>\<open>getCacheKey\<close>: \<^verbatim>\<open>fmt.Sprintf("%s:%s", group, id)\<close>.\<close>

definition getCacheKey :: "string \<Rightarrow> string \<Rightarrow> string" where
  "getCacheKey grp idn = grp @ '':'' @ idn"

text \<open>\<^verbatim>\<open>GetTemplatesPath\<close>.\<close>

definition GetTemplatesPath :: "('t, 'fm) TemplateRenderer \<Rightarrow> string" where
  "GetTemplatesPath t = templatesPath t"

text \<open>
  \<^verbatim>\<open>Load\<close>: the lookup in the \<^verbatim>\<open>sync.Map\<close>, then the type assertion
  \<^verbatim>\<open>load.(*template.Template)\<close>.
\<close>

definition Load :: "('t, 'fm) TemplateRenderer \<Rightarrow> string \<Rightarrow> string \<Rightarrow> error + 't" where
  "Load t grp idn =
     (case templateCache t (getCacheKey grp idn) of
        None \<Rightarrow> Inl NotFoundError
      | Some load \<Rightarrow>
          (case load of
             AnyTemplate tmpl \<Rightarrow> Inr tmpl
           | AnyOther _ \<Rightarrow> Inl TypeError))"

text \<open>
  The path of a listed file, \<^verbatim>\<open>fmt.Sprintf("%s/%s%s", t.templatesPath, v, config.TemplateExt)\<close>,
  and the pattern of a directory,
  \<^verbatim>\<open>fmt.Sprintf("%s/%s/*%s", t.templatesPath, dir, config.TemplateExt)\<close>.
\<close>

definition filePath :: "config_pkg \<Rightarrow> string \<Rightarrow> string \<Rightarrow> string" where
  "filePath cp root v = root @ ''/'' @ v @ TemplateExt cp"

definition dirPattern :: "config_pkg \<Rightarrow> string \<Rightarrow> string \<Rightarrow> string" where
  "dirPattern cp root dir = root @ ''/'' @ dir @ ''/*'' @ TemplateExt cp"

text \<open>
  The loop \<^verbatim>\<open>for k, v := range files { files[k] = ... }\<close>: the indices in order, each
  element read and overwritten in place.
\<close>

definition rewriteFiles :: "config_pkg \<Rightarrow> string \<Rightarrow> string list \<Rightarrow> string list" where
  "rewriteFiles cp root files =
     fold (\<lambda>k fs. fs[k := filePath cp root (fs ! k)]) [0..<length files] files"

text \<open>
  The loop \<^verbatim>\<open>for _, dir := range directories\<close>: every directory's pattern is parsed into
  the template so far, and the first error ends the loop (and \<^verbatim>\<open>Parse\<close>).
\<close>

fun parseDirectories ::
  "config_pkg \<Rightarrow> ('t, 'fs, 'fm, 'd) template_pkg \<Rightarrow> 'fs \<Rightarrow> string \<Rightarrow> 't \<Rightarrow> string list
     \<Rightarrow> string + 't" where
  "parseDirectories cp lib fs root parsed [] = Inr parsed"
| "parseDirectories cp lib fs root parsed (dir # directories) =
     (case ParseGlob lib fs parsed (dirPattern cp root dir) of
        Inl err \<Rightarrow> Inl err
      | Inr parsed' \<Rightarrow> parseDirectories cp lib fs root parsed' directories)"

text \<open>
  The template that \<^verbatim>\<open>Parse\<close> starts from:
  \<^verbatim>\<open>template.New(name + config.TemplateExt).Funcs(t.funcMap)\<close>.
\<close>

definition newParsed ::
  "config_pkg \<Rightarrow> ('t, 'fs, 'fm, 'd) template_pkg \<Rightarrow> ('t, 'fm) TemplateRenderer \<Rightarrow> string \<Rightarrow> 't" where
  "newParsed cp lib t name = Funcs lib (New lib (name @ TemplateExt cp)) (funcMap t)"

text \<open>
  \<^verbatim>\<open>Parse\<close>. The result is the error (\<open>None\<close> for \<^verbatim>\<open>nil\<close>), the contents of the
  \<^verbatim>\<open>files\<close> slice after the call, and the renderer after the call.
\<close>

definition Parse ::
  "config_pkg \<Rightarrow> ('t, 'fs, 'fm, 'd) template_pkg \<Rightarrow> 'fs \<Rightarrow> ('t, 'fm) TemplateRenderer
     \<Rightarrow> string \<Rightarrow> string \<Rightarrow> string \<Rightarrow> string list \<Rightarrow> string list
     \<Rightarrow> error option \<times> string list \<times> ('t, 'fm) TemplateRenderer" where
  "Parse cp lib fs t grp idn name files directories =
     (let cacheKey = getCacheKey grp idn in
      if isl (Load t grp idn) \<or> App_Environment (config t) = EnvLocal cp then
        let parsed = newParsed cp lib t name;
            files' = (if length files > 0 then rewriteFiles cp (templatesPath t) files
                      else files)
        in
          case (if length files > 0 then ParseFiles lib fs parsed files' else Inr parsed) of
            Inl err \<Rightarrow> (Some (ParseError err), files', t)
          | Inr parsed1 \<Rightarrow>
              (case parseDirectories cp lib fs (templatesPath t) parsed1 directories of
                 Inl err \<Rightarrow> (Some (ParseError err), files', t)
               | Inr parsed2 \<Rightarrow>
                   (None, files',
                    t\<lparr>templateCache := (templateCache t)(cacheKey \<mapsto> AnyTemplate parsed2)\<rparr>))
      else (None, files, t))"

text \<open>
  \<^verbatim>\<open>Execute\<close>. The result is the buffer's bytes or the error, and the renderer after the
  call.
\<close>

definition Execute ::
  "config_pkg \<Rightarrow> ('t, 'fs, 'fm, 'd) template_pkg \<Rightarrow> ('t, 'fm) TemplateRenderer
     \<Rightarrow> string \<Rightarrow> string \<Rightarrow> string \<Rightarrow> 'd \<Rightarrow> (error + string) \<times> ('t, 'fm) TemplateRenderer" where
  "Execute cp lib t grp idn name data =
     (case Load t grp idn of
        Inl err \<Rightarrow> (Inl err, t)
      | Inr tmpl \<Rightarrow>
          (case ExecuteTemplate lib tmpl (name @ TemplateExt cp) data of
             Inl err \<Rightarrow> (Inl (ExecutionError err), t)
           | Inr buf \<Rightarrow> (Inr buf, t)))"

text \<open>\<^verbatim>\<open>ParseAndExecute\<close>: \<^verbatim>\<open>Parse\<close>, then \<^verbatim>\<open>Execute\<close>, stopping at the first error.\<close>

definition ParseAndExecute ::
  "config_pkg \<Rightarrow> ('t, 'fs, 'fm, 'd) template_pkg \<Rightarrow> 'fs \<Rightarrow> ('t, 'fm) TemplateRenderer
     \<Rightarrow> string \<Rightarrow> string \<Rightarrow> string \<Rightarrow> string list \<Rightarrow> string list \<Rightarrow> 'd
     \<Rightarrow> (error + string) \<times> string list \<times> ('t, 'fm) TemplateRenderer" where
  "ParseAndExecute cp lib fs t grp idn name files directories data =
     (case Parse cp lib fs t grp idn name files directories of
        (Some err, files', t') \<Rightarrow> (Inl err, files', t')
      | (None, files', t') \<Rightarrow>
          (case Execute cp lib t' grp idn name data of
             (Inl err, t'') \<Rightarrow> (Inl err, files', t'')
           | (Inr buf, t'') \<Rightarrow> (Inr buf, files', t'')))"

text \<open>
  \<^verbatim>\<open>Execute\<close> once more, with the cache holding pointers, as in the source, and the
  template objects in a store \<open>h\<close>. \<^verbatim>\<open>tmpl.ExecuteTemplate\<close> is called on the pointer that
  \<^verbatim>\<open>Load\<close> found in the cache; it is a parameter that gives its result and the store
  it leaves. The result is the buffer's bytes or the error, the renderer and the store
  after the call.
\<close>

type_synonym ptr = nat

definition Execute_store ::
  "config_pkg \<Rightarrow> ((ptr \<Rightarrow> 'o) \<Rightarrow> ptr \<Rightarrow> string \<Rightarrow> 'd \<Rightarrow> (string + string) \<times> (ptr \<Rightarrow> 'o))
     \<Rightarrow> (ptr, 'fm) TemplateRenderer \<Rightarrow> (ptr \<Rightarrow> 'o)
     \<Rightarrow> string \<Rightarrow> string \<Rightarrow> string \<Rightarrow> 'd
     \<Rightarrow> (error + string) \<times> (ptr, 'fm) TemplateRenderer \<times> (ptr \<Rightarrow> 'o)" where
  "Execute_store cp executeTemplate t h grp idn name data =
     (case Load t grp idn of
        Inl err \<Rightarrow> (Inl err, t, h)
      | Inr tmpl \<Rightarrow>
          (case executeTemplate h tmpl (name @ TemplateExt cp) data of
             (Inl err, h') \<Rightarrow> (Inl (ExecutionError err), t, h')
           | (Inr buf, h') \<Rightarrow> (Inr buf, t, h')))"

subsection \<open>Reachable renderers\<close>

text \<open>
  The renderers a program can hold: the one \<^verbatim>\<open>NewTemplateRenderer\<close> returns, and what the
  exported methods that can write leave behind, with any arguments and any file system.
  \<^verbatim>\<open>templateCache\<close> is unexported, so nothing else stores into it. The renderer keeps
  a pointer to the configuration, which its owner may change between calls (\<open>setConfig\<close>).
\<close>

inductive reachable ::
  "config_pkg \<Rightarrow> ('t, 'fs, 'fm, 'd) template_pkg \<Rightarrow> ('t, 'fm) TemplateRenderer \<Rightarrow> bool"
  for cp :: config_pkg and lib :: "('t, 'fs, 'fm, 'd) template_pkg" where
  new: "reachable cp lib (NewTemplateRenderer fm path cfg)"
| parse:
    "reachable cp lib t \<Longrightarrow>
     Parse cp lib fs t grp idn name files directories = (r, files', t') \<Longrightarrow>
     reachable cp lib t'"
| execute:
    "reachable cp lib t \<Longrightarrow>
     Execute cp lib t grp idn name data = (res, t') \<Longrightarrow>
     reachable cp lib t'"
| parseAndExecute:
    "reachable cp lib t \<Longrightarrow>
     ParseAndExecute cp lib fs t grp idn name files directories data = (res, files', t') \<Longrightarrow>
     reachable cp lib t'"
| setConfig:
    "reachable cp lib t \<Longrightarrow> reachable cp lib (t\<lparr>config := cfg\<rparr>)"

text \<open>The invariant of the cache: every value in it is a \<^verbatim>\<open>*template.Template\<close>.\<close>

definition templates_only :: "('t, 'fm) TemplateRenderer \<Rightarrow> bool" where
  "templates_only t = (\<forall>k v. templateCache t k = Some v \<longrightarrow> (\<exists>tmpl. v = AnyTemplate tmpl))"

subsection \<open>Sequences of calls\<close>

text \<open>
  A call of one of the exported methods that can write, or a change of the configuration;
  \<open>step\<close> is the renderer after one call and \<open>run\<close> the renderer after a sequence of
  calls. \<open>stores\<close> is the pair (group, id) under which a call stores an entry, if it
  stores one: a \<^verbatim>\<open>Parse\<close> (alone, or as the first half of \<^verbatim>\<open>ParseAndExecute\<close>) that takes
  the branch that parses and returns no error, which is when it reaches
  \<^verbatim>\<open>t.templateCache.Store\<close>. \<open>stored_pairs\<close> collects these pairs over a sequence of
  calls.
\<close>

datatype ('fs, 'd) call =
    CallParse 'fs string string string "string list" "string list"
  | CallExecute string string string 'd
  | CallParseAndExecute 'fs string string string "string list" "string list" 'd
  | CallSetConfig config

fun step ::
  "config_pkg \<Rightarrow> ('t, 'fs, 'fm, 'd) template_pkg \<Rightarrow> ('t, 'fm) TemplateRenderer
     \<Rightarrow> ('fs, 'd) call \<Rightarrow> ('t, 'fm) TemplateRenderer" where
  "step cp lib t (CallParse fs grp idn name files directories) =
     snd (snd (Parse cp lib fs t grp idn name files directories))"
| "step cp lib t (CallExecute grp idn name data) =
     snd (Execute cp lib t grp idn name data)"
| "step cp lib t (CallParseAndExecute fs grp idn name files directories data) =
     snd (snd (ParseAndExecute cp lib fs t grp idn name files directories data))"
| "step cp lib t (CallSetConfig cfg) = t\<lparr>config := cfg\<rparr>"

fun run ::
  "config_pkg \<Rightarrow> ('t, 'fs, 'fm, 'd) template_pkg \<Rightarrow> ('t, 'fm) TemplateRenderer
     \<Rightarrow> ('fs, 'd) call list \<Rightarrow> ('t, 'fm) TemplateRenderer" where
  "run cp lib t [] = t"
| "run cp lib t (c # calls) = run cp lib (step cp lib t c) calls"

fun stores ::
  "config_pkg \<Rightarrow> ('t, 'fs, 'fm, 'd) template_pkg \<Rightarrow> ('t, 'fm) TemplateRenderer
     \<Rightarrow> ('fs, 'd) call \<Rightarrow> (string \<times> string) list" where
  "stores cp lib t (CallParse fs grp idn name files directories) =
     (if (isl (Load t grp idn) \<or> App_Environment (config t) = EnvLocal cp)
         \<and> fst (Parse cp lib fs t grp idn name files directories) = None
      then [(grp, idn)] else [])"
| "stores cp lib t (CallExecute grp idn name data) = []"
| "stores cp lib t (CallParseAndExecute fs grp idn name files directories data) =
     (if (isl (Load t grp idn) \<or> App_Environment (config t) = EnvLocal cp)
         \<and> fst (Parse cp lib fs t grp idn name files directories) = None
      then [(grp, idn)] else [])"
| "stores cp lib t (CallSetConfig cfg) = []"

fun stored_pairs ::
  "config_pkg \<Rightarrow> ('t, 'fs, 'fm, 'd) template_pkg \<Rightarrow> ('t, 'fm) TemplateRenderer
     \<Rightarrow> ('fs, 'd) call list \<Rightarrow> (string \<times> string) list" where
  "stored_pairs cp lib t [] = []"
| "stored_pairs cp lib t (c # calls) =
     stores cp lib t c @ stored_pairs cp lib (step cp lib t c) calls"

subsection \<open>A small instance\<close>

text \<open>
  An instance of the parameters, to run the operations on concrete inputs. A file system
  is the list of the paths (and patterns) that can be read; a template is the list of
  the paths parsed into it; a template's name is the base name of its file, as
  \<^verbatim>\<open>ParseFiles\<close> names it; executing a template writes its path and the data.
\<close>

definition baseName :: "string \<Rightarrow> string" where
  "baseName p = rev (takeWhile (\<lambda>c. c \<noteq> CHR ''/'') (rev p))"

definition demo_config_pkg :: config_pkg where
  "demo_config_pkg = \<lparr>TemplateExt = ''.gohtml'', EnvLocal = ''local''\<rparr>"

definition demo_template_pkg :: "(string list, string list, unit, string) template_pkg" where
  "demo_template_pkg =
     \<lparr>New = (\<lambda>name. []),
      Funcs = (\<lambda>t fm. t),
      ParseFiles = (\<lambda>fs t files.
        if list_all (\<lambda>f. f \<in> set fs) files then Inr (t @ files) else Inl ''no such file''),
      ParseGlob = (\<lambda>fs t pattern.
        if pattern \<in> set fs then Inr (t @ [pattern]) else Inl ''pattern matches no files''),
      Lookup = (\<lambda>t name.
        case filter (\<lambda>p. baseName p = name) t of [] \<Rightarrow> None | p # _ \<Rightarrow> Some [p]),
      ExecuteOne = (\<lambda>sub data. Inr (concat sub @ ''?'' @ data))\<rparr>"

definition demo_fs :: "string list" where
  "demo_fs = [''/tpl/pages/home.gohtml'', ''/tpl/layouts/main.gohtml'',
              ''/tpl/components/*.gohtml'']"

definition demo_renderer :: "string \<Rightarrow> (string list, unit) TemplateRenderer" where
  "demo_renderer env = NewTemplateRenderer () ''/tpl'' \<lparr>App_Environment = env\<rparr>"

text \<open>The renderer after the home page has been parsed, in the environment \<open>env\<close>.\<close>

definition demo_parsed :: "string \<Rightarrow> (string list, unit) TemplateRenderer" where
  "demo_parsed env =
     snd (snd (Parse demo_config_pkg demo_template_pkg demo_fs (demo_renderer env)
       ''page'' ''home'' ''home'' [''pages/home''] [''components'']))"




section \<open>Basic facts\<close>

lemma fold_update_prefix:
  "n \<le> length xs \<Longrightarrow>
   fold (\<lambda>k ys. ys[k := f (ys ! k)]) [0..<n] xs = map f (take n xs) @ drop n xs"
proof (induction n)
  case 0
  then show ?case by simp
next
  case (Suc n)
  then have n: "n < length xs" by simp
  have "fold (\<lambda>k ys. ys[k := f (ys ! k)]) [0..<Suc n] xs
        = (map f (take n xs) @ drop n xs)[n := f ((map f (take n xs) @ drop n xs) ! n)]"
    using Suc by simp
  also have "(map f (take n xs) @ drop n xs) ! n = xs ! n"
    using n by (simp add: nth_append)
  also have "(map f (take n xs) @ drop n xs)[n := f (xs ! n)]
        = map f (take n xs) @ (drop n xs)[0 := f (xs ! n)]"
    using n by (simp add: list_update_append)
  also have "(drop n xs)[0 := f (xs ! n)] = f (xs ! n) # drop (Suc n) xs"
    using n by (simp add: Cons_nth_drop_Suc [symmetric])
  also have "map f (take n xs) @ f (xs ! n) # drop (Suc n) xs
        = map f (take (Suc n) xs) @ drop (Suc n) xs"
    using n by (simp add: take_Suc_conv_app_nth)
  finally show ?case .
qed

text \<open>The loop over \<^verbatim>\<open>files\<close> rewrites every element, each one once.\<close>

lemma rewriteFiles_map: "rewriteFiles cp root files = map (filePath cp root) files"
  by (simp add: rewriteFiles_def fold_update_prefix)

lemma parseDirectories_append:
  "parseDirectories cp lib fs root parsed (ds @ ds') =
     (case parseDirectories cp lib fs root parsed ds of
        Inl err \<Rightarrow> Inl err
      | Inr parsed' \<Rightarrow> parseDirectories cp lib fs root parsed' ds')"
  by (induction ds arbitrary: parsed) (auto split: sum.splits)

text \<open>The two branches of \<^verbatim>\<open>Parse\<close>.\<close>

lemma Parse_noop:
  assumes "Load t grp idn = Inr tmpl" and "App_Environment (config t) \<noteq> EnvLocal cp"
  shows "Parse cp lib fs t grp idn name files directories = (None, files, t)"
  using assms by (simp add: Parse_def)

lemma Parse_reparse:
  assumes "isl (Load t grp idn) \<or> App_Environment (config t) = EnvLocal cp"
  shows "Parse cp lib fs t grp idn name files directories =
     (case (if files = [] then Inr (newParsed cp lib t name)
            else ParseFiles lib fs (newParsed cp lib t name)
                   (map (filePath cp (templatesPath t)) files)) of
        Inl err \<Rightarrow> (Some (ParseError err), map (filePath cp (templatesPath t)) files, t)
      | Inr parsed1 \<Rightarrow>
          (case parseDirectories cp lib fs (templatesPath t) parsed1 directories of
             Inl err \<Rightarrow> (Some (ParseError err), map (filePath cp (templatesPath t)) files, t)
           | Inr parsed2 \<Rightarrow>
               (None, map (filePath cp (templatesPath t)) files,
                t\<lparr>templateCache :=
                    (templateCache t)(getCacheKey grp idn \<mapsto> AnyTemplate parsed2)\<rparr>)))"
  using assms by (auto simp: Parse_def Let_def rewriteFiles_map split: sum.splits)

text \<open>
  What \<^verbatim>\<open>Parse\<close> can do to the renderer: nothing, or one store of a template under the
  key, with no error.
\<close>

lemma Parse_state_cases:
  assumes "Parse cp lib fs t grp idn name files directories = (r, files', t')"
  shows "t' = t \<or>
     (r = None \<and>
      (\<exists>parsed. t' = t\<lparr>templateCache :=
                          (templateCache t)(getCacheKey grp idn \<mapsto> AnyTemplate parsed)\<rparr>))"
proof (cases "isl (Load t grp idn) \<or> App_Environment (config t) = EnvLocal cp")
  case True
  show ?thesis
    using assms unfolding Parse_reparse [OF True]
    by (auto split: sum.splits if_splits)
next
  case False
  then show ?thesis using assms by (auto simp: Parse_def)
qed

lemma Parse_error_state:
  assumes "Parse cp lib fs t grp idn name files directories = (Some e, files', t')"
  shows "t' = t"
  using Parse_state_cases [OF assms] by auto

lemma Parse_fields:
  assumes "Parse cp lib fs t grp idn name files directories = (r, files', t')"
  shows "templatesPath t' = templatesPath t \<and> config t' = config t \<and> funcMap t' = funcMap t"
  using Parse_state_cases [OF assms] by auto

text \<open>\<^verbatim>\<open>Parse\<close> for one key leaves the entries of all other keys as they were.\<close>

lemma Parse_other_keys:
  assumes "Parse cp lib fs t grp idn name files directories = (r, files', t')"
    and "k \<noteq> getCacheKey grp idn"
  shows "templateCache t' k = templateCache t k"
  using Parse_state_cases [OF assms(1)] assms(2) by auto

lemma Execute_state: "snd (Execute cp lib t grp idn name data) = t"
  by (simp add: Execute_def split: sum.splits)

lemma ParseAndExecute_state:
  "snd (snd (ParseAndExecute cp lib fs t grp idn name files directories data))
     = snd (snd (Parse cp lib fs t grp idn name files directories))"
proof -
  obtain r fl t1 where p: "Parse cp lib fs t grp idn name files directories = (r, fl, t1)"
    by (cases "Parse cp lib fs t grp idn name files directories") auto
  obtain res t2 where e: "Execute cp lib t1 grp idn name data = (res, t2)"
    by (cases "Execute cp lib t1 grp idn name data") auto
  have "t2 = t1" using Execute_state [of cp lib t1 grp idn name data] e by simp
  then show ?thesis
    using p e by (cases r; cases res) (simp_all add: ParseAndExecute_def)
qed

subsection \<open>The invariant of the cache\<close>

lemma Parse_templates_only:
  assumes "templates_only t"
    and "Parse cp lib fs t grp idn name files directories = (r, files', t')"
  shows "templates_only t'"
  using Parse_state_cases [OF assms(2)] assms(1)
  by (auto simp: templates_only_def split: if_splits)

lemma reachable_templates_only: "reachable cp lib t \<Longrightarrow> templates_only t"
proof (induction rule: reachable.induct)
  case (new fm path cfg)
  show ?case by (simp add: templates_only_def NewTemplateRenderer_def)
next
  case (parse t fs grp idn name files directories r files' t')
  then show ?case by (blast intro: Parse_templates_only)
next
  case (execute t grp idn name data res t')
  then show ?case using Execute_state [of cp lib t grp idn name data] by simp
next
  case (parseAndExecute t fs grp idn name files directories data res files' t')
  obtain r fl t1 where p: "Parse cp lib fs t grp idn name files directories = (r, fl, t1)"
    by (cases "Parse cp lib fs t grp idn name files directories") auto
  have "t' = t1"
    using ParseAndExecute_state [of cp lib fs t grp idn name files directories data]
      parseAndExecute.hyps(2) p by simp
  with p parseAndExecute.IH show ?case by (blast intro: Parse_templates_only)
next
  case (setConfig t cfg)
  then show ?case by (simp add: templates_only_def)
qed

lemma Load_present:
  assumes "templates_only t" and "templateCache t (getCacheKey grp idn) \<noteq> None"
  shows "\<exists>tmpl. Load t grp idn = Inr tmpl
           \<and> templateCache t (getCacheKey grp idn) = Some (AnyTemplate tmpl)"
  using assms by (auto simp: templates_only_def Load_def split: option.splits any.splits)

text \<open>
  The invariant is needed: on a cache that holds a value of another type, the type
  assertion of \<^verbatim>\<open>Load\<close> fails.
\<close>

lemma Load_TypeError_possible:
  "Load (t\<lparr>templateCache := (templateCache t)(getCacheKey grp idn \<mapsto> AnyOther s)\<rparr>) grp idn
     = Inl TypeError"
  by (simp add: Load_def)

subsection \<open>Sequences of calls\<close>

text \<open>An entry of the cache was there before the call, or the call stored it.\<close>

lemma step_cache:
  assumes "templateCache (step cp lib t c) k = Some v"
  shows "templateCache t k = Some v
       \<or> (\<exists>g i. (g, i) \<in> set (stores cp lib t c) \<and> k = getCacheKey g i)"
proof -
  have parse: "templateCache t k = Some v
       \<or> ((isl (Load t grp idn) \<or> App_Environment (config t) = EnvLocal cp)
           \<and> fst (Parse cp lib fs t grp idn name files directories) = None
           \<and> k = getCacheKey grp idn)"
    if "templateCache (snd (snd (Parse cp lib fs t grp idn name files directories))) k = Some v"
    for fs grp idn name files directories
  proof (cases "isl (Load t grp idn) \<or> App_Environment (config t) = EnvLocal cp")
    case True
    show ?thesis
      using that True unfolding Parse_reparse [OF True]
      by (auto split: sum.splits if_splits)
  next
    case False
    then show ?thesis using that by (auto simp: Parse_def)
  qed
  show ?thesis
  proof (cases c)
    case (CallParse fs grp idn name files directories)
    with assms parse [of fs grp idn name files directories] show ?thesis by auto
  next
    case (CallExecute grp idn name data)
    with assms show ?thesis by (simp add: Execute_state)
  next
    case (CallParseAndExecute fs grp idn name files directories data)
    with assms parse [of fs grp idn name files directories] show ?thesis
      by (auto simp: ParseAndExecute_state)
  next
    case (CallSetConfig cfg)
    with assms show ?thesis by simp
  qed
qed

lemma run_cache:
  assumes "templateCache (run cp lib t calls) k = Some v"
  shows "templateCache t k \<noteq> None
       \<or> (\<exists>g i. (g, i) \<in> set (stored_pairs cp lib t calls) \<and> k = getCacheKey g i)"
  using assms
proof (induction calls arbitrary: t)
  case Nil
  then show ?case by simp
next
  case (Cons c calls)
  from Cons.prems have "templateCache (run cp lib (step cp lib t c) calls) k = Some v"
    by simp
  from Cons.IH [OF this] show ?case
  proof
    assume "templateCache (step cp lib t c) k \<noteq> None"
    then obtain v' where "templateCache (step cp lib t c) k = Some v'" by auto
    from step_cache [OF this] show ?thesis by auto
  next
    assume "\<exists>g i. (g, i) \<in> set (stored_pairs cp lib (step cp lib t c) calls)
              \<and> k = getCacheKey g i"
    then show ?thesis by auto
  qed
qed

text \<open>Every renderer that a sequence of calls leaves is reachable.\<close>

lemma step_reachable:
  assumes "reachable cp lib t"
  shows "reachable cp lib (step cp lib t c)"
proof (cases c)
  case (CallParse fs grp idn name files directories)
  have "Parse cp lib fs t grp idn name files directories
      = (fst (Parse cp lib fs t grp idn name files directories),
         fst (snd (Parse cp lib fs t grp idn name files directories)),
         step cp lib t c)"
    by (simp add: CallParse)
  with assms show ?thesis by (rule reachable.parse)
next
  case (CallExecute grp idn name data)
  then show ?thesis using assms by (simp add: Execute_state)
next
  case (CallParseAndExecute fs grp idn name files directories data)
  have "ParseAndExecute cp lib fs t grp idn name files directories data
      = (fst (ParseAndExecute cp lib fs t grp idn name files directories data),
         fst (snd (ParseAndExecute cp lib fs t grp idn name files directories data)),
         step cp lib t c)"
    by (simp add: CallParseAndExecute)
  with assms show ?thesis by (rule reachable.parseAndExecute)
next
  case (CallSetConfig cfg)
  then show ?thesis using assms by (simp add: reachable.setConfig)
qed

lemma run_reachable:
  "reachable cp lib t \<Longrightarrow> reachable cp lib (run cp lib t calls)"
  by (induction calls arbitrary: t) (simp_all add: step_reachable)

subsection \<open>The instance, evaluated\<close>

lemmas demo_defs = demo_config_pkg_def demo_template_pkg_def demo_renderer_def demo_fs_def
  NewTemplateRenderer_def Parse_def Load_def getCacheKey_def rewriteFiles_map filePath_def
  dirPattern_def Execute_def ExecuteTemplate_def baseName_def newParsed_def

lemma demo_first_Parse:
  "Parse demo_config_pkg demo_template_pkg demo_fs (demo_renderer env)
     ''page'' ''home'' ''home'' [''pages/home''] [''components'']
   = (None, [''/tpl/pages/home.gohtml''], demo_parsed env)"
  by (simp add: demo_parsed_def demo_defs)

lemma demo_parsed_eq:
  "demo_parsed env =
     \<lparr>templateCache =
        [''page:home'' \<mapsto> AnyTemplate [''/tpl/pages/home.gohtml'', ''/tpl/components/*.gohtml'']],
      funcMap = (), templatesPath = ''/tpl'', config = \<lparr>App_Environment = env\<rparr>\<rparr>"
  by (simp add: demo_parsed_def demo_defs)

lemma demo_parsed_reachable:
  "reachable demo_config_pkg demo_template_pkg (demo_parsed env)"
  using reachable.new demo_first_Parse unfolding demo_renderer_def
  by (rule reachable.parse)

lemma demo_Execute_defined:
  "Execute demo_config_pkg demo_template_pkg (demo_parsed ''production'')
        ''page'' ''home'' ''home'' ''data''
   = (Inr ''/tpl/pages/home.gohtml?data'', demo_parsed ''production'')"
  by (simp add: demo_parsed_eq demo_defs)

section \<open>The cache key\<close>

lemma getCacheKey_split:
  assumes "CHR '':'' \<notin> set g1" and "CHR '':'' \<notin> set g2"
    and "g1 @ CHR '':'' # i1 = g2 @ CHR '':'' # i2"
  shows "g1 = g2 \<and> i1 = i2"
  using assms
proof (induction g1 arbitrary: g2)
  case Nil
  then show ?case by (cases g2) auto
next
  case (Cons c g1)
  then show ?case by (cases g2) auto
qed

lemma getCacheKey_split_ids:
  assumes "CHR '':'' \<notin> set i1" and "CHR '':'' \<notin> set i2"
    and "g1 @ CHR '':'' # i1 = g2 @ CHR '':'' # i2"
  shows "g1 = g2 \<and> i1 = i2"
proof -
  from assms(3) have "rev (g1 @ CHR '':'' # i1) = rev (g2 @ CHR '':'' # i2)"
    by simp
  then have "rev i1 @ CHR '':'' # rev g1 = rev i2 @ CHR '':'' # rev g2"
    by simp
  moreover have "CHR '':'' \<notin> set (rev i1)" "CHR '':'' \<notin> set (rev i2)"
    using assms(1,2) by simp_all
  ultimately have "rev i1 = rev i2 \<and> rev g1 = rev g2"
    using getCacheKey_split by blast
  then show ?thesis by simp
qed

text \<open>
  C1. The claim: two distinct pairs (group, id) never have the same cache key. It fails
  where the separator occurs in a group and in an id: the pairs \<open>(a:b, c)\<close> and
  \<open>(a, b:c)\<close> are distinct and both have the key \<open>a:b:c\<close>.
\<close>

theorem getCacheKey_collision:
  "(''a:b'', ''c'') \<noteq> (''a'', ''b:c'') \<and> getCacheKey ''a:b'' ''c'' = getCacheKey ''a'' ''b:c''"
  by (simp add: getCacheKey_def)

text \<open>
  C1, amended. Two distinct pairs (group, id) have distinct cache keys when neither group
  contains the separator \<open>:\<close>, and also when neither id contains it.
\<close>

theorem getCacheKey_inj_no_separator:
  assumes "(g1, i1) \<noteq> (g2, i2)"
    and "(CHR '':'' \<notin> set g1 \<and> CHR '':'' \<notin> set g2)
         \<or> (CHR '':'' \<notin> set i1 \<and> CHR '':'' \<notin> set i2)"
  shows "getCacheKey g1 i1 \<noteq> getCacheKey g2 i2"
proof
  assume "getCacheKey g1 i1 = getCacheKey g2 i2"
  then have eq: "g1 @ CHR '':'' # i1 = g2 @ CHR '':'' # i2"
    by (simp add: getCacheKey_def)
  from assms(2) have "g1 = g2 \<and> i1 = i2"
  proof
    assume "CHR '':'' \<notin> set g1 \<and> CHR '':'' \<notin> set g2"
    with eq show ?thesis by (blast dest: getCacheKey_split)
  next
    assume "CHR '':'' \<notin> set i1 \<and> CHR '':'' \<notin> set i2"
    with eq show ?thesis by (blast dest: getCacheKey_split_ids)
  qed
  with assms(1) show False by simp
qed

theorem getCacheKey_inj_no_separator_witness:
  "(''page'', ''home'') \<noteq> (''email'', ''home'')
   \<and> CHR '':'' \<notin> set ''page'' \<and> CHR '':'' \<notin> set ''email''
   \<and> getCacheKey ''page'' ''home'' \<noteq> getCacheKey ''email'' ''home''"
  using getCacheKey_inj_no_separator [of "''page''" "''home''" "''email''" "''home''"]
  by simp

section \<open>Parse\<close>

text \<open>
  C2. When \<^verbatim>\<open>Parse\<close> takes the branch that parses (\<^verbatim>\<open>Load\<close> fails, or the environment is
  local), the caller's \<^verbatim>\<open>files\<close> slice holds afterwards, in place of each element \<open>v\<close>,
  the path \<^verbatim>\<open>templatesPath + "/" + v + extension\<close>, whatever \<^verbatim>\<open>Parse\<close> returns (an error
  or not). A second \<^verbatim>\<open>Parse\<close> that is given that same slice and parses again, as every
  \<^verbatim>\<open>Parse\<close> in the local environment does, therefore works on paths that are prefixed
  and suffixed twice.
\<close>

theorem Parse_mutates_files:
  assumes "isl (Load t grp idn) \<or> App_Environment (config t) = EnvLocal cp"
    and "Parse cp lib fs t grp idn name files directories = (r, files', t')"
  shows "files' = map (filePath cp (templatesPath t)) files
       \<and> (isl (Load t' grp' idn') \<or> App_Environment (config t') = EnvLocal cp \<longrightarrow>
            fst (snd (Parse cp lib fs' t' grp' idn' name' files' directories'))
              = map (filePath cp (templatesPath t)) (map (filePath cp (templatesPath t)) files))"
proof -
  have first: "files' = map (filePath cp (templatesPath t)) files"
    using assms(2) unfolding Parse_reparse [OF assms(1)]
    by (auto split: sum.splits if_splits)
  have second: "fst (snd (Parse cp lib fs' t' grp' idn' name' files' directories'))
      = map (filePath cp (templatesPath t)) files'"
    if "isl (Load t' grp' idn') \<or> App_Environment (config t') = EnvLocal cp"
  proof -
    from Parse_fields [OF assms(2)]
    have same: "templatesPath t' = templatesPath t" by simp
    from that show ?thesis
      by (simp add: Parse_reparse same split: sum.splits)
  qed
  from first second show ?thesis by simp
qed

text \<open>
  In the instance: the first \<^verbatim>\<open>Parse\<close> succeeds and leaves \<open>/tpl/pages/home.gohtml\<close> in
  the slice; the second one, given the slice again, asks for
  \<open>/tpl//tpl/pages/home.gohtml.gohtml\<close>, which does not exist, and fails.
\<close>

theorem Parse_mutates_files_witness:
  "App_Environment (config (demo_renderer ''local'')) = EnvLocal demo_config_pkg
   \<and> Parse demo_config_pkg demo_template_pkg demo_fs (demo_renderer ''local'')
        ''page'' ''home'' ''home'' [''pages/home''] [''components'']
      = (None, [''/tpl/pages/home.gohtml''], demo_parsed ''local'')
   \<and> [''/tpl/pages/home.gohtml'']
      = map (filePath demo_config_pkg (templatesPath (demo_renderer ''local''))) [''pages/home'']
   \<and> Parse demo_config_pkg demo_template_pkg demo_fs (demo_parsed ''local'')
        ''page'' ''home'' ''home'' [''/tpl/pages/home.gohtml''] [''components'']
      = (Some (ParseError ''no such file''), [''/tpl//tpl/pages/home.gohtml.gohtml''],
         demo_parsed ''local'')"
proof -
  have env: "App_Environment (config (demo_renderer ''local'')) = EnvLocal demo_config_pkg"
    by (simp add: demo_defs)
  then have re: "isl (Load (demo_renderer ''local'') ''page'' ''home'')
      \<or> App_Environment (config (demo_renderer ''local'')) = EnvLocal demo_config_pkg"
    by simp
  show ?thesis
    using env Parse_mutates_files [OF re demo_first_Parse, where fs' = demo_fs
        and grp' = "''page''" and idn' = "''home''" and name' = "''home''"
        and directories' = "[''components'']"]
    by (simp add: demo_first_Parse) (simp add: demo_parsed_eq demo_defs)
qed

text \<open>
  C3. When \<^verbatim>\<open>Parse\<close> takes the branch that parses and a load fails (\<^verbatim>\<open>ParseFiles\<close> on the
  listed files, or \<^verbatim>\<open>ParseGlob\<close> on the pattern of some directory after the files and
  the directories before it have been loaded), \<^verbatim>\<open>Parse\<close> returns that error and the
  renderer is what it was before the call: nothing is stored, and the entry of the key,
  if there is one, stays as it was.
\<close>

theorem Parse_failure_keeps_cache:
  assumes reparse: "isl (Load t grp idn) \<or> App_Environment (config t) = EnvLocal cp"
    and fails:
      "(files \<noteq> [] \<and>
          ParseFiles lib fs (newParsed cp lib t name)
            (map (filePath cp (templatesPath t)) files) = Inl msg)
       \<or> (\<exists>parsed1 ds dir rest parsed2.
            (if files = [] then Inr (newParsed cp lib t name)
             else ParseFiles lib fs (newParsed cp lib t name)
                    (map (filePath cp (templatesPath t)) files))
              = Inr parsed1
            \<and> directories = ds @ dir # rest
            \<and> parseDirectories cp lib fs (templatesPath t) parsed1 ds = Inr parsed2
            \<and> ParseGlob lib fs parsed2 (dirPattern cp (templatesPath t) dir) = Inl msg)"
  shows "Parse cp lib fs t grp idn name files directories
           = (Some (ParseError msg), map (filePath cp (templatesPath t)) files, t)"
  using fails
proof (elim disjE conjE exE)
  assume "files \<noteq> []"
    and "ParseFiles lib fs (newParsed cp lib t name)
           (map (filePath cp (templatesPath t)) files) = Inl msg"
  then show ?thesis
    unfolding Parse_reparse [OF reparse] by simp
next
  fix parsed1 ds dir rest parsed2
  assume files: "(if files = [] then Inr (newParsed cp lib t name)
             else ParseFiles lib fs (newParsed cp lib t name)
                    (map (filePath cp (templatesPath t)) files))
              = Inr parsed1"
    and dirs: "directories = ds @ dir # rest"
    and before: "parseDirectories cp lib fs (templatesPath t) parsed1 ds = Inr parsed2"
    and glob: "ParseGlob lib fs parsed2 (dirPattern cp (templatesPath t) dir) = Inl msg"
  have "parseDirectories cp lib fs (templatesPath t) parsed1 directories = Inl msg"
    using before glob by (simp add: dirs parseDirectories_append)
  with files show ?thesis
    unfolding Parse_reparse [OF reparse] by simp
qed

text \<open>
  In the instance, in the local environment and with the home page in the cache: a list
  with a file that does not exist makes \<^verbatim>\<open>Parse\<close> fail, and the entry is still the
  one of the first \<^verbatim>\<open>Parse\<close>.
\<close>

theorem Parse_failure_keeps_cache_witness:
  "App_Environment (config (demo_parsed ''local'')) = EnvLocal demo_config_pkg
   \<and> ParseFiles demo_template_pkg demo_fs
        (newParsed demo_config_pkg demo_template_pkg (demo_parsed ''local'') ''home'')
        (map (filePath demo_config_pkg (templatesPath (demo_parsed ''local'')))
           [''pages/home'', ''pages/missing''])
      = Inl ''no such file''
   \<and> Parse demo_config_pkg demo_template_pkg demo_fs (demo_parsed ''local'')
        ''page'' ''home'' ''home'' [''pages/home'', ''pages/missing''] [''components'']
      = (Some (ParseError ''no such file''),
         [''/tpl/pages/home.gohtml'', ''/tpl/pages/missing.gohtml''], demo_parsed ''local'')
   \<and> templateCache (demo_parsed ''local'') ''page:home''
      = Some (AnyTemplate [''/tpl/pages/home.gohtml'', ''/tpl/components/*.gohtml''])"
  using Parse_failure_keeps_cache [where t = "demo_parsed ''local''" and cp = demo_config_pkg
      and lib = demo_template_pkg and fs = demo_fs and grp = "''page''" and idn = "''home''"
      and name = "''home''" and files = "[''pages/home'', ''pages/missing'']"
      and directories = "[''components'']" and msg = "''no such file''"]
  by (simp add: demo_parsed_eq demo_config_pkg_def demo_template_pkg_def demo_fs_def
      filePath_def newParsed_def)

text \<open>
  A successful \<^verbatim>\<open>Parse\<close> outside the local environment makes every later \<^verbatim>\<open>Parse\<close> of
  the same key a no-op, whatever name, files, directories and file system it is given.
\<close>

lemma Parse_twice:
  assumes "App_Environment (config t) \<noteq> EnvLocal cp"
    and "Parse cp lib fs t grp idn name files directories = (None, files', t')"
  shows "Parse cp lib fs2 t' grp idn name2 files2 directories2 = (None, files2, t')"
proof -
  have "config t' = config t" using Parse_fields [OF assms(2)] by simp
  moreover have "\<exists>tmpl. Load t' grp idn = Inr tmpl"
  proof (cases "isl (Load t grp idn)")
    case True
    then have "isl (Load t grp idn) \<or> App_Environment (config t) = EnvLocal cp" by simp
    from assms(2) [unfolded Parse_reparse [OF this]] show ?thesis
      by (auto simp: Load_def split: sum.splits)
  next
    case False
    then obtain tmpl where "Load t grp idn = Inr tmpl" by (cases "Load t grp idn") auto
    with assms show ?thesis by (simp add: Parse_noop)
  qed
  ultimately show ?thesis using assms(1) by (auto simp: Parse_noop)
qed

text \<open>
  C4. On a reachable renderer whose cache has an entry for the key of (group, id), and
  outside the local environment, \<^verbatim>\<open>Parse\<close> returns no error and changes nothing: the
  renderer, and with it the stored template, is the same after the call, and the
  \<^verbatim>\<open>files\<close> slice is untouched. So a second \<^verbatim>\<open>Parse\<close> of a key after a successful first
  one leaves its entry as it is.
\<close>

theorem Parse_cached_noop:
  assumes "reachable cp lib t"
    and "templateCache t (getCacheKey grp idn) \<noteq> None"
    and "App_Environment (config t) \<noteq> EnvLocal cp"
  shows "Parse cp lib fs t grp idn name files directories = (None, files, t)"
proof -
  from assms(1) have "templates_only t" by (rule reachable_templates_only)
  with assms(2) obtain tmpl where "Load t grp idn = Inr tmpl"
    using Load_present by blast
  then show ?thesis using assms(3) by (rule Parse_noop)
qed

text \<open>
  In the instance: after the first \<^verbatim>\<open>Parse\<close> of the home page in production, a second
  one, even on a file system where every file is gone, succeeds and changes nothing.
\<close>

theorem Parse_cached_noop_witness:
  "reachable demo_config_pkg demo_template_pkg (demo_parsed ''production'')
   \<and> templateCache (demo_parsed ''production'') (getCacheKey ''page'' ''home'') \<noteq> None
   \<and> App_Environment (config (demo_parsed ''production'')) \<noteq> EnvLocal demo_config_pkg
   \<and> Parse demo_config_pkg demo_template_pkg [] (demo_parsed ''production'')
        ''page'' ''home'' ''home'' [''pages/home''] [''components'']
      = (None, [''pages/home''], demo_parsed ''production'')"
proof -
  have present:
    "templateCache (demo_parsed ''production'') (getCacheKey ''page'' ''home'') \<noteq> None"
    by (simp add: demo_parsed_eq getCacheKey_def)
  have env: "App_Environment (config (demo_parsed ''production'')) \<noteq> EnvLocal demo_config_pkg"
    by (simp add: demo_parsed_eq demo_config_pkg_def)
  show ?thesis
    using demo_parsed_reachable present env
      Parse_cached_noop [OF demo_parsed_reachable present env]
    by simp
qed

text \<open>
  C5. In the local environment \<^verbatim>\<open>Parse\<close> parses anew whether or not the cache has an
  entry for the key: the template it builds starts from \<^verbatim>\<open>template.New\<close> and depends on
  the name, the files, the directories and the file system only. When every load
  succeeds the result is stored under the key, in place of whatever was there.
\<close>

theorem Parse_local_stores_fresh:
  assumes "App_Environment (config t) = EnvLocal cp"
    and "(if files = [] then Inr (newParsed cp lib t name)
          else ParseFiles lib fs (newParsed cp lib t name)
                 (map (filePath cp (templatesPath t)) files)) = Inr parsed1"
    and "parseDirectories cp lib fs (templatesPath t) parsed1 directories = Inr parsed2"
  shows "Parse cp lib fs t grp idn name files directories
           = (None, map (filePath cp (templatesPath t)) files,
              t\<lparr>templateCache :=
                  (templateCache t)(getCacheKey grp idn \<mapsto> AnyTemplate parsed2)\<rparr>)"
proof -
  from assms(1) have "isl (Load t grp idn) \<or> App_Environment (config t) = EnvLocal cp"
    by simp
  then show ?thesis using assms(2,3) by (simp add: Parse_reparse)
qed

text \<open>
  In the instance: the key holds the home page and the components; a \<^verbatim>\<open>Parse\<close> of the
  same key with the layout alone replaces the entry by a template that holds the
  layout alone.
\<close>

theorem Parse_local_stores_fresh_witness:
  "App_Environment (config (demo_parsed ''local'')) = EnvLocal demo_config_pkg
   \<and> templateCache (demo_parsed ''local'') (getCacheKey ''page'' ''home'')
      = Some (AnyTemplate [''/tpl/pages/home.gohtml'', ''/tpl/components/*.gohtml''])
   \<and> ParseFiles demo_template_pkg demo_fs
        (newParsed demo_config_pkg demo_template_pkg (demo_parsed ''local'') ''home'')
        (map (filePath demo_config_pkg (templatesPath (demo_parsed ''local''))) [''layouts/main''])
      = Inr [''/tpl/layouts/main.gohtml'']
   \<and> parseDirectories demo_config_pkg demo_template_pkg demo_fs
        (templatesPath (demo_parsed ''local'')) [''/tpl/layouts/main.gohtml''] []
      = Inr [''/tpl/layouts/main.gohtml'']
   \<and> Parse demo_config_pkg demo_template_pkg demo_fs (demo_parsed ''local'')
        ''page'' ''home'' ''home'' [''layouts/main''] []
      = (None, [''/tpl/layouts/main.gohtml''],
         (demo_parsed ''local'')\<lparr>templateCache :=
            (templateCache (demo_parsed ''local''))
              (getCacheKey ''page'' ''home'' \<mapsto> AnyTemplate [''/tpl/layouts/main.gohtml''])\<rparr>)"
proof -
  have env: "App_Environment (config (demo_parsed ''local'')) = EnvLocal demo_config_pkg"
    by (simp add: demo_parsed_eq demo_config_pkg_def)
  have files: "(if [''layouts/main''] = []
        then Inr (newParsed demo_config_pkg demo_template_pkg (demo_parsed ''local'') ''home'')
        else ParseFiles demo_template_pkg demo_fs
          (newParsed demo_config_pkg demo_template_pkg (demo_parsed ''local'') ''home'')
          (map (filePath demo_config_pkg (templatesPath (demo_parsed ''local'')))
             [''layouts/main'']))
      = Inr [''/tpl/layouts/main.gohtml'']"
    by (simp add: demo_parsed_eq demo_defs)
  have dirs: "parseDirectories demo_config_pkg demo_template_pkg demo_fs
        (templatesPath (demo_parsed ''local'')) [''/tpl/layouts/main.gohtml''] []
      = Inr [''/tpl/layouts/main.gohtml'']"
    by simp
  show ?thesis
    using Parse_local_stores_fresh [OF env files dirs, of "''page''" "''home''"]
    by (simp add: demo_parsed_eq demo_defs)
qed

section \<open>Execute and Load\<close>

text \<open>\<^verbatim>\<open>Execute\<close> on a key that the cache does not hold.\<close>

lemma Execute_uncached:
  assumes "templateCache t (getCacheKey grp idn) = None"
  shows "Execute cp lib t grp idn name data = (Inl NotFoundError, t)"
  using assms by (simp add: Execute_def Load_def)

lemma Execute_unstored_key:
  assumes "\<forall>(g, i) \<in> set (stored_pairs cp lib (NewTemplateRenderer fm path cfg) calls).
             getCacheKey g i \<noteq> getCacheKey grp idn"
  shows "Execute cp lib (run cp lib (NewTemplateRenderer fm path cfg) calls) grp idn name data
           = (Inl NotFoundError, run cp lib (NewTemplateRenderer fm path cfg) calls)"
proof (rule Execute_uncached)
  show "templateCache (run cp lib (NewTemplateRenderer fm path cfg) calls) (getCacheKey grp idn)
          = None"
  proof (rule ccontr)
    assume "templateCache (run cp lib (NewTemplateRenderer fm path cfg) calls)
              (getCacheKey grp idn) \<noteq> None"
    then obtain v where "templateCache (run cp lib (NewTemplateRenderer fm path cfg) calls)
              (getCacheKey grp idn) = Some v" by auto
    from run_cache [OF this] assms show False
      by (auto simp: NewTemplateRenderer_def)
  qed
qed

lemma demo_collision_run:
  "run demo_config_pkg demo_template_pkg
     (NewTemplateRenderer () ''/tpl'' \<lparr>App_Environment = ''production''\<rparr>)
     [CallParse demo_fs ''a:b'' ''c'' ''home'' [''pages/home''] []]
   = \<lparr>templateCache = [''a:b:c'' \<mapsto> AnyTemplate [''/tpl/pages/home.gohtml'']],
      funcMap = (), templatesPath = ''/tpl'', config = \<lparr>App_Environment = ''production''\<rparr>\<rparr>"
  by (simp add: demo_defs Let_def)

text \<open>
  C6. The claim: for every pair (group, id) for which no entry has ever been stored in the
  cache, \<^verbatim>\<open>Execute\<close> fails with the error of the lookup. It fails where the key of the
  pair is the key of another pair: on a new renderer, after the one call
  \<^verbatim>\<open>Parse("a:b", "c", "home", ["pages/home"], nil)\<close>, the only pair an entry has been stored
  for is \<open>(a:b, c)\<close>, and \<^verbatim>\<open>Execute("a", "b:c", "home", data)\<close> finds that entry under
  \<open>a:b:c\<close> and returns a buffer.
\<close>

theorem Execute_after_colliding_Parse:
  "stored_pairs demo_config_pkg demo_template_pkg
       (NewTemplateRenderer () ''/tpl'' \<lparr>App_Environment = ''production''\<rparr>)
       [CallParse demo_fs ''a:b'' ''c'' ''home'' [''pages/home''] []]
     = [(''a:b'', ''c'')]
   \<and> (''a'', ''b:c'') \<notin> set [(''a:b'', ''c'')]
   \<and> fst (Execute demo_config_pkg demo_template_pkg
        (run demo_config_pkg demo_template_pkg
           (NewTemplateRenderer () ''/tpl'' \<lparr>App_Environment = ''production''\<rparr>)
           [CallParse demo_fs ''a:b'' ''c'' ''home'' [''pages/home''] []])
        ''a'' ''b:c'' ''home'' ''data'')
      = Inr ''/tpl/pages/home.gohtml?data''"
  by (simp add: demo_collision_run) (simp add: demo_defs Let_def)

text \<open>
  C6, amended. Take any sequence of calls on a new renderer and a pair (group, id) for
  which none of them stored an entry. If neither the group of the pair nor the group of
  any pair an entry was stored for contains the separator \<open>:\<close> (or if that holds of the
  ids), then \<^verbatim>\<open>Execute\<close> for the pair returns the error of the failed lookup,
  \<^verbatim>\<open>"uncached page template requested"\<close>, and no buffer.
\<close>

theorem Execute_never_stored:
  assumes never: "(grp, idn) \<notin> set (stored_pairs cp lib (NewTemplateRenderer fm path cfg) calls)"
    and sep:
      "(CHR '':'' \<notin> set grp
          \<and> list_all (\<lambda>(g, i). CHR '':'' \<notin> set g)
               (stored_pairs cp lib (NewTemplateRenderer fm path cfg) calls))
       \<or> (CHR '':'' \<notin> set idn
          \<and> list_all (\<lambda>(g, i). CHR '':'' \<notin> set i)
               (stored_pairs cp lib (NewTemplateRenderer fm path cfg) calls))"
  shows "Execute cp lib (run cp lib (NewTemplateRenderer fm path cfg) calls) grp idn name data
           = (Inl NotFoundError, run cp lib (NewTemplateRenderer fm path cfg) calls)"
proof (rule Execute_unstored_key, clarify)
  fix g i
  assume stored: "(g, i) \<in> set (stored_pairs cp lib (NewTemplateRenderer fm path cfg) calls)"
    and "getCacheKey g i = getCacheKey grp idn"
  then have eq: "g @ CHR '':'' # i = grp @ CHR '':'' # idn"
    by (simp add: getCacheKey_def)
  from sep have "g = grp \<and> i = idn"
  proof
    assume "CHR '':'' \<notin> set grp
          \<and> list_all (\<lambda>(g, i). CHR '':'' \<notin> set g)
               (stored_pairs cp lib (NewTemplateRenderer fm path cfg) calls)"
    with stored have "CHR '':'' \<notin> set g" "CHR '':'' \<notin> set grp"
      by (auto simp: list_all_iff)
    with eq show ?thesis by (blast dest: getCacheKey_split)
  next
    assume "CHR '':'' \<notin> set idn
          \<and> list_all (\<lambda>(g, i). CHR '':'' \<notin> set i)
               (stored_pairs cp lib (NewTemplateRenderer fm path cfg) calls)"
    with stored have "CHR '':'' \<notin> set i" "CHR '':'' \<notin> set idn"
      by (auto simp: list_all_iff)
    with eq show ?thesis by (blast dest: getCacheKey_split_ids)
  qed
  with stored never show False by simp
qed

text \<open>
  In the instance: the home page is parsed and stored; the contact page is parsed, but
  its file does not exist, so nothing is stored for it, and \<^verbatim>\<open>Execute\<close> for it fails with
  the error of the lookup.
\<close>

theorem Execute_never_stored_witness:
  "stored_pairs demo_config_pkg demo_template_pkg
       (NewTemplateRenderer () ''/tpl'' \<lparr>App_Environment = ''production''\<rparr>)
       [CallParse demo_fs ''page'' ''home'' ''home'' [''pages/home''] [''components''],
        CallParse demo_fs ''page'' ''contact'' ''contact'' [''pages/contact''] []]
     = [(''page'', ''home'')]
   \<and> (''page'', ''contact'') \<notin> set [(''page'', ''home'')]
   \<and> CHR '':'' \<notin> set ''page''
   \<and> Execute demo_config_pkg demo_template_pkg
        (run demo_config_pkg demo_template_pkg
           (NewTemplateRenderer () ''/tpl'' \<lparr>App_Environment = ''production''\<rparr>)
           [CallParse demo_fs ''page'' ''home'' ''home'' [''pages/home''] [''components''],
            CallParse demo_fs ''page'' ''contact'' ''contact'' [''pages/contact''] []])
        ''page'' ''contact'' ''contact'' ''data''
      = (Inl NotFoundError,
         run demo_config_pkg demo_template_pkg
           (NewTemplateRenderer () ''/tpl'' \<lparr>App_Environment = ''production''\<rparr>)
           [CallParse demo_fs ''page'' ''home'' ''home'' [''pages/home''] [''components''],
            CallParse demo_fs ''page'' ''contact'' ''contact'' [''pages/contact''] []])"
proof -
  have stored: "stored_pairs demo_config_pkg demo_template_pkg
       (NewTemplateRenderer () ''/tpl'' \<lparr>App_Environment = ''production''\<rparr>)
       [CallParse demo_fs ''page'' ''home'' ''home'' [''pages/home''] [''components''],
        CallParse demo_fs ''page'' ''contact'' ''contact'' [''pages/contact''] []]
     = [(''page'', ''home'')]"
    by (simp add: demo_defs Let_def)
  have never: "(''page'', ''contact'') \<notin> set (stored_pairs demo_config_pkg demo_template_pkg
       (NewTemplateRenderer () ''/tpl'' \<lparr>App_Environment = ''production''\<rparr>)
       [CallParse demo_fs ''page'' ''home'' ''home'' [''pages/home''] [''components''],
        CallParse demo_fs ''page'' ''contact'' ''contact'' [''pages/contact''] []])"
    unfolding stored by simp
  have sep: "(CHR '':'' \<notin> set ''page''
      \<and> list_all (\<lambda>(g, i). CHR '':'' \<notin> set g)
           (stored_pairs demo_config_pkg demo_template_pkg
             (NewTemplateRenderer () ''/tpl'' \<lparr>App_Environment = ''production''\<rparr>)
             [CallParse demo_fs ''page'' ''home'' ''home'' [''pages/home''] [''components''],
              CallParse demo_fs ''page'' ''contact'' ''contact'' [''pages/contact''] []]))
    \<or> (CHR '':'' \<notin> set ''contact''
      \<and> list_all (\<lambda>(g, i). CHR '':'' \<notin> set i)
           (stored_pairs demo_config_pkg demo_template_pkg
             (NewTemplateRenderer () ''/tpl'' \<lparr>App_Environment = ''production''\<rparr>)
             [CallParse demo_fs ''page'' ''home'' ''home'' [''pages/home''] [''components''],
              CallParse demo_fs ''page'' ''contact'' ''contact'' [''pages/contact''] []]))"
    unfolding stored by simp
  show ?thesis
    by (intro conjI) (rule stored, simp, simp, rule Execute_never_stored [OF never sep])
qed

text \<open>
  C7. When the template cached under the key has no associated template of the name
  \<^verbatim>\<open>name + config.TemplateExt\<close>, \<^verbatim>\<open>Execute\<close> returns the error of \<^verbatim>\<open>ExecuteTemplate\<close> and no
  buffer.
\<close>

theorem Execute_undefined_name:
  assumes "Load t grp idn = Inr tmpl"
    and "Lookup lib tmpl (name @ TemplateExt cp) = None"
  shows "\<exists>err. Execute cp lib t grp idn name data = (Inl (ExecutionError err), t)"
  using assms by (simp add: Execute_def ExecuteTemplate_def)

theorem Execute_undefined_name_witness:
  "Load (demo_parsed ''production'') ''page'' ''home''
      = Inr [''/tpl/pages/home.gohtml'', ''/tpl/components/*.gohtml'']
   \<and> Lookup demo_template_pkg [''/tpl/pages/home.gohtml'', ''/tpl/components/*.gohtml'']
        (''about'' @ TemplateExt demo_config_pkg) = None
   \<and> (\<exists>err. Execute demo_config_pkg demo_template_pkg (demo_parsed ''production'')
        ''page'' ''home'' ''about'' ''data''
      = (Inl (ExecutionError err), demo_parsed ''production''))"
proof -
  have load: "Load (demo_parsed ''production'') ''page'' ''home''
      = Inr [''/tpl/pages/home.gohtml'', ''/tpl/components/*.gohtml'']"
    by (simp add: demo_parsed_eq Load_def getCacheKey_def)
  have lookup:
    "Lookup demo_template_pkg [''/tpl/pages/home.gohtml'', ''/tpl/components/*.gohtml'']
        (''about'' @ TemplateExt demo_config_pkg) = None"
    by (simp add: demo_template_pkg_def demo_config_pkg_def baseName_def)
  show ?thesis
    using load lookup Execute_undefined_name [OF load lookup, of "''data''"]
    by simp
qed

text \<open>
  \<open>Execute_store\<close> with a library that leaves the store alone and computes what
  \<open>ExecuteTemplate\<close> computes is \<open>Execute\<close>.
\<close>

lemma Execute_store_Execute:
  "Execute_store cp (\<lambda>h tmpl name data. (ExecuteTemplate lib tmpl name data, h)) t h
     grp idn name data
   = (fst (Execute cp lib t grp idn name data), t, h)"
  by (simp add: Execute_store_def Execute_def split: sum.splits)



text \<open>
  C9. On every reachable renderer all values in the cache are templates: the only store
  is the one of \<^verbatim>\<open>Parse\<close>, of a \<^verbatim>\<open>*template.Template\<close>. So \<^verbatim>\<open>Load\<close> never returns
  \<^verbatim>\<open>"unable to cast cached template"\<close>, and on a key that is present it returns the
  template stored there.
\<close>

theorem reachable_Load_typed:
  assumes "reachable cp lib t"
  shows "(\<forall>k v. templateCache t k = Some v \<longrightarrow> (\<exists>tmpl. v = AnyTemplate tmpl))
       \<and> Load t grp idn \<noteq> Inl TypeError
       \<and> (templateCache t (getCacheKey grp idn) \<noteq> None \<longrightarrow>
            (\<exists>tmpl. Load t grp idn = Inr tmpl
               \<and> templateCache t (getCacheKey grp idn) = Some (AnyTemplate tmpl)))"
proof -
  from assms have inv: "templates_only t" by (rule reachable_templates_only)
  then have "\<forall>k v. templateCache t k = Some v \<longrightarrow> (\<exists>tmpl. v = AnyTemplate tmpl)"
    by (simp add: templates_only_def)
  moreover have "Load t grp idn \<noteq> Inl TypeError"
    using inv by (auto simp: templates_only_def Load_def split: option.splits any.splits)
  moreover have "templateCache t (getCacheKey grp idn) \<noteq> None \<longrightarrow>
            (\<exists>tmpl. Load t grp idn = Inr tmpl
               \<and> templateCache t (getCacheKey grp idn) = Some (AnyTemplate tmpl))"
    using Load_present [OF inv] by blast
  ultimately show ?thesis by blast
qed

theorem reachable_Load_typed_witness:
  "reachable demo_config_pkg demo_template_pkg (demo_parsed ''production'')
   \<and> templateCache (demo_parsed ''production'') (getCacheKey ''page'' ''home'') \<noteq> None
   \<and> Load (demo_parsed ''production'') ''page'' ''home'' \<noteq> Inl TypeError
   \<and> (\<exists>tmpl. Load (demo_parsed ''production'') ''page'' ''home'' = Inr tmpl)"
proof -
  have present:
    "templateCache (demo_parsed ''production'') (getCacheKey ''page'' ''home'') \<noteq> None"
    by (simp add: demo_parsed_eq getCacheKey_def)
  show ?thesis
    using demo_parsed_reachable present
      reachable_Load_typed [OF demo_parsed_reachable, of "''production''" "''page''" "''home''"]
    by blast
qed

end
